theory Spec2Isabelle
  imports Main "HOL-Library.Word"
begin

section \<open>Values of the host language\<close>

text \<open>
  A Go \<open>error\<close> is a value with an \<open>Error()\<close> method returning its text;
  \<open>errors.New(msg)\<close> builds one. A nil error is \<open>None\<close> of \<open>error option\<close>.
\<close>

datatype error = errors_New (Error: string)

text \<open>
  \<open>interface{}\<close> values as they occur in \<open>logrus.Fields\<close> and in a \<open>Message\<close>:
  the nil interface, an error, a string, other scalars, and a nested field mapping
  (\<open>map[string]interface{}\<close>).
\<close>

datatype iface =
    Nil_val
  | Error_val error
  | String_val string
  | Int_val int
  | Bool_val bool
  | Fields_val "string \<Rightarrow> iface option"

type_synonym Fields = "string \<rightharpoonup> iface"

type_synonym Message = "string \<rightharpoonup> iface"

text \<open>\<open>logrus.Level\<close> is a \<open>uint32\<close>; smaller numbers are more severe.\<close>

type_synonym Level = "32 word"

text \<open>An instant of \<open>time.Time\<close>; only the library reads it.\<close>

type_synonym Time = int

record Entry =
  Data :: Fields
  Time :: Time
  Level :: Level
  Message :: string

section \<open>Libraries the hook calls\<close>

text \<open>
  The package variables \<open>logrus.AllLevels\<close> and \<open>logrus.ErrorKey\<close>, the method
  \<open>Level.String\<close>, and \<open>Time.UTC\<close> and \<open>Time.Format\<close> of the standard library are not
  part of the repository. The hook's functions take them as a parameter.
\<close>

record deps =
  AllLevels :: "Level list"
  ErrorKey :: string
  Level_String :: "Level \<Rightarrow> string"
  Time_UTC :: "Time \<Rightarrow> Time"
  Time_Format :: "Time \<Rightarrow> string \<Rightarrow> string"

definition RFC3339Nano :: string where
  "RFC3339Nano = ''2006-01-02T15:04:05.999999999Z07:00''"

text \<open>Requests handed to the elastic client.\<close>

record IndexRequest =
  req_index :: string
  req_type :: string
  req_body :: Message

record BulkIndexRequest =
  bulk_index :: string
  bulk_type :: string
  bulk_doc :: Message

text \<open>Callbacks and the backoff policy are opaque to the hook: a tag identifies each.\<close>

type_synonym Backoff = nat
type_synonym BulkBeforeFunc = nat
type_synonym BulkAfterFunc = nat
type_synonym ErrorLogger = nat

text \<open>A started \<open>*elastic.BulkProcessor\<close>; the nil pointer is \<open>None\<close> of its option.\<close>

type_synonym Processor = nat

text \<open>
  The \<open>BulkProcessorService\<close> builder. A setter the hook does not call leaves the
  library's default in place (\<open>None\<close>); \<open>Before\<close> and \<open>After\<close> are always called, with a
  callback that may be nil.
\<close>

record BulkProcessorService =
  svc_name :: string
  svc_workers :: "int option"
  svc_bulkActions :: "int option"
  svc_bulkSize :: "int option"
  svc_flushInterval :: "int option"
  svc_backoff :: "Backoff option"
  svc_retryItemStatusCodes :: "int list option"
  svc_before :: "BulkBeforeFunc option"
  svc_after :: "BulkAfterFunc option"

text \<open>
  The contexts of the source: \<open>context.Background()\<close>, and the hook's \<open>ctx\<close>, which
  \<open>New\<close> derives from it with \<open>context.WithCancel\<close>.
\<close>

datatype Context = context_Background | hook_ctx

text \<open>
  A call either returns or panics: a method of a nil \<open>*BulkProcessor\<close>, or a method of
  the library that panics itself.
\<close>

datatype 'a outcome = Panic | Return 'a

text \<open>
  Everything the hook does to the outside is an event, appended to a trace in the order
  the code performs it. \<open>Go_asyncFlush\<close> is the \<open>go func() {...}()\<close> statement of
  \<open>asyncFlush\<close>: the goroutine is started, its body runs later. \<open>IndexExists_Do\<close>
  and \<open>Index_Do\<close> run under the hook's \<open>ctx\<close>, \<open>Context_cancel\<close> is the call of that
  context's cancel function, and \<open>BulkProcessor_Do\<close> carries the context it is given. A
  call of the processor is recorded whether it returns or panics.
\<close>

datatype event =
    IndexExists_Do string
  | Context_cancel
  | Index_Do IndexRequest
  | Go_asyncFlush Entry
  | ErrorLogger_call string "error option"
  | BulkProcessor_Do BulkProcessorService Context
  | Processor_Add Processor BulkIndexRequest
  | Processor_Flush Processor
  | Processor_Close Processor

type_synonym trace = "event list"

text \<open>
  The elastic client answers each call; the answer may depend on everything that
  happened before (the trace: documents sent, the context cancelled, a processor closed).
  \<open>IndexExists(..).Do\<close> returns \<open>(bool, error)\<close>, \<open>Index()...Do\<close> a response the hook
  drops and an error, and \<open>BulkProcessor()...Do\<close> \<open>(*BulkProcessor, error)\<close>. The
  processor's \<open>Add\<close> returns nothing and its \<open>Flush\<close> and \<open>Close\<close> return an error;
  each of the three may panic instead of returning.
\<close>

record Client =
  IndexExists_result :: "trace \<Rightarrow> string \<Rightarrow> bool \<times> error option"
  Index_result :: "trace \<Rightarrow> IndexRequest \<Rightarrow> error option"
  BulkProcessor_result :: "trace \<Rightarrow> BulkProcessorService \<Rightarrow> Processor option \<times> error option"
  Add_result :: "trace \<Rightarrow> Processor \<Rightarrow> BulkIndexRequest \<Rightarrow> unit outcome"
  Flush_result :: "trace \<Rightarrow> Processor \<Rightarrow> error option outcome"
  Close_result :: "trace \<Rightarrow> Processor \<Rightarrow> error option outcome"

section \<open>The hook\<close>

text \<open>
  \<open>Formatter\<close> is \<open>func(*logrus.Entry) Message\<close>. The entry is passed by pointer, so a
  formatter returns the entry as it leaves it beside the message.
\<close>

type_synonym Formatter = "Entry \<Rightarrow> Message \<times> Entry"

text \<open>
  The function values the hook stores, one constructor per function literal of the
  source with the variables it captures: \<open>cancel\<close> is the \<open>context.CancelFunc\<close> of
  \<open>New\<close> or the closure of \<open>EnableBulkFlush\<close> around the previous \<open>cancel\<close> and the
  processor; \<open>flushFunc\<close> is \<open>syncFlush\<close>, \<open>asyncFlush\<close> or the closure of
  \<open>EnableBulkFlush\<close> around the processor.
\<close>

datatype CancelFunc =
    context_CancelFunc
  | bulk_CancelFunc CancelFunc "Processor option"

datatype flushFunc =
    syncFlush_func
  | asyncFlush_func
  | bulkFlush_func "Processor option"

text \<open>
  The struct \<open>Hook\<close>. Its \<open>ctx\<close> is always \<open>hook_ctx\<close>, the one context \<open>New\<close>
  creates. A context is done once its cancel function has been called; the background
  context has none.
\<close>

definition ctx_Done :: "Context \<Rightarrow> trace \<Rightarrow> bool" where
  "ctx_Done c tr = (case c of context_Background \<Rightarrow> False | hook_ctx \<Rightarrow> Context_cancel \<in> set tr)"

record Hook =
  client :: Client
  index :: string
  docType :: string
  levels :: "Level list"
  cancel :: CancelFunc
  formatter :: Formatter
  flushFunc :: flushFunc
  errorLogger :: "ErrorLogger option"

record BulkOptions =
  Workers :: int
  Stats :: bool
  BulkActions :: int
  BulkSize :: int
  FlushInterval :: int
  Backoff :: "Backoff option"
  BulkBefore :: "BulkBeforeFunc option"
  BulkAfter :: "BulkAfterFunc option"
  RetryItemStatusCodes :: "int list option"

subsection \<open>defaultFormatter\<close>

definition defaultFormatter :: "deps \<Rightarrow> Entry \<Rightarrow> Message \<times> Entry" where
  "defaultFormatter lib entry =
     (let entry' =
        (case Data entry (ErrorKey lib) of
           None \<Rightarrow> entry
         | Some Nil_val \<Rightarrow> entry
         | Some (Error_val err) \<Rightarrow>
             entry\<lparr>Data := (Data entry)(ErrorKey lib \<mapsto> String_val (Error err))\<rparr>
         | Some _ \<Rightarrow> entry)
      in (Map.empty(
            ''@timestamp'' \<mapsto> String_val (Time_Format lib (Time_UTC lib (Time entry')) RFC3339Nano),
            ''message'' \<mapsto> String_val (Message entry'),
            ''level'' \<mapsto> String_val (Level_String lib (Level entry')),
            ''data'' \<mapsto> Fields_val (Data entry')),
          entry'))"

subsection \<open>Delivery\<close>

definition syncFlush :: "Entry \<Rightarrow> Hook \<Rightarrow> trace \<Rightarrow> error option \<times> Entry \<times> trace" where
  "syncFlush entry hook tr =
     (let (msg, entry') = formatter hook entry;
          req = \<lparr>req_index = index hook, req_type = docType hook, req_body = msg\<rparr>;
          err = Index_result (client hook) tr req
      in (err, entry', tr @ [Index_Do req]))"

text \<open>
  \<open>asyncFlush\<close> starts the goroutine and returns nil. \<open>asyncFlush_go\<close> is the body of
  the goroutine, run on the entry and the hook as they are when it runs.
\<close>

definition asyncFlush_go :: "Entry \<Rightarrow> Hook \<Rightarrow> trace \<Rightarrow> Entry \<times> trace" where
  "asyncFlush_go entry hook tr =
     (let (err, entry', tr') = syncFlush entry hook tr
      in if errorLogger hook \<noteq> None
         then (entry', tr' @ [ErrorLogger_call ''couldn't send log to elastic'' err])
         else (entry', tr'))"

definition asyncFlush :: "Entry \<Rightarrow> Hook \<Rightarrow> trace \<Rightarrow> error option \<times> Entry \<times> trace" where
  "asyncFlush entry hook tr = (None, entry, tr @ [Go_asyncFlush entry])"

text \<open>The function literal \<open>EnableBulkFlush\<close> assigns to \<open>flushFunc\<close>.\<close>

definition bulkFlush ::
  "Processor option \<Rightarrow> Entry \<Rightarrow> Hook \<Rightarrow> trace \<Rightarrow> error option outcome \<times> Entry \<times> trace" where
  "bulkFlush processor entry hook tr =
     (let (msg, entry') = formatter hook entry;
          req = \<lparr>bulk_index = index hook, bulk_type = docType hook, bulk_doc = msg\<rparr>
      in case processor of
           None \<Rightarrow> (Panic, entry', tr)
         | Some p \<Rightarrow>
             (case Add_result (client hook) tr p req of
                Panic \<Rightarrow> (Panic, entry', tr @ [Processor_Add p req])
              | Return u \<Rightarrow> (Return None, entry', tr @ [Processor_Add p req])))"

fun call_flushFunc ::
  "flushFunc \<Rightarrow> Entry \<Rightarrow> Hook \<Rightarrow> trace \<Rightarrow> error option outcome \<times> Entry \<times> trace" where
  "call_flushFunc syncFlush_func entry hook tr =
     (let (err, entry', tr') = syncFlush entry hook tr in (Return err, entry', tr'))"
| "call_flushFunc asyncFlush_func entry hook tr =
     (let (err, entry', tr') = asyncFlush entry hook tr in (Return err, entry', tr'))"
| "call_flushFunc (bulkFlush_func processor) entry hook tr = bulkFlush processor entry hook tr"

subsection \<open>Cancelling\<close>

text \<open>
  The closure of \<open>EnableBulkFlush\<close> reads \<open>h.errorLogger\<close> when it runs, so the hook is
  an argument of the call.
\<close>

definition report :: "Hook \<Rightarrow> string \<Rightarrow> error option \<Rightarrow> trace" where
  "report h msg e =
     (if e \<noteq> None \<and> errorLogger h \<noteq> None then [ErrorLogger_call msg e] else [])"

fun call_cancel :: "CancelFunc \<Rightarrow> Hook \<Rightarrow> trace \<Rightarrow> unit outcome \<times> trace" where
  "call_cancel context_CancelFunc h tr = (Return (), tr @ [Context_cancel])"
| "call_cancel (bulk_CancelFunc cancel' processor) h tr =
     (case call_cancel cancel' h tr of
        (Panic, tr1) \<Rightarrow> (Panic, tr1)
      | (Return u, tr1) \<Rightarrow>
          (case processor of
             None \<Rightarrow> (Panic, tr1)
           | Some p \<Rightarrow>
               (case Flush_result (client h) tr1 p of
                  Panic \<Rightarrow> (Panic, tr1 @ [Processor_Flush p])
                | Return e \<Rightarrow>
                    (let tr2 = tr1 @ [Processor_Flush p] @ report h ''couldn't flush'' e
                     in case Close_result (client h) tr2 p of
                          Panic \<Rightarrow> (Panic, tr2 @ [Processor_Close p])
                        | Return e' \<Rightarrow>
                            (Return (),
                             tr2 @ [Processor_Close p] @ report h ''couldn't close'' e')))))"

subsection \<open>Construction and configuration\<close>

definition New :: "deps \<Rightarrow> Client \<Rightarrow> string \<Rightarrow> trace \<Rightarrow> (Hook option \<times> error option) \<times> trace" where
  "New lib cl idx tr =
     (let (exists, err) = IndexExists_result cl tr idx;
          tr1 = tr @ [IndexExists_Do idx]
      in if err \<noteq> None then ((None, err), tr1 @ [Context_cancel])
         else if \<not> exists then
           ((None, Some (errors_New ''index not exists'')), tr1 @ [Context_cancel])
         else
           ((Some \<lparr>client = cl, index = idx, docType = ''doc'', levels = AllLevels lib,
                    cancel = context_CancelFunc, formatter = defaultFormatter lib,
                    flushFunc = syncFlush_func, errorLogger = None\<rparr>, None), tr1))"

definition SetLevel :: "deps \<Rightarrow> Level \<Rightarrow> Hook \<Rightarrow> Hook" where
  "SetLevel lib level h =
     h\<lparr>levels := foldl (\<lambda>ls l. if l \<le> level then ls @ [l] else ls) [] (AllLevels lib)\<rparr>"

definition SetFormatter :: "Formatter \<Rightarrow> Hook \<Rightarrow> Hook" where
  "SetFormatter f h = h\<lparr>formatter := f\<rparr>"

definition SetDocumentType :: "string \<Rightarrow> Hook \<Rightarrow> Hook" where
  "SetDocumentType t h = h\<lparr>docType := t\<rparr>"

text \<open>The builder chain of \<open>EnableBulkFlush\<close>, up to \<open>Do\<close>.\<close>

definition bulk_service :: "BulkOptions \<Rightarrow> BulkProcessorService" where
  "bulk_service options =
     (let s0 = \<lparr>svc_name = ''elasticlogrus'', svc_workers = None, svc_bulkActions = None,
                svc_bulkSize = None, svc_flushInterval = None, svc_backoff = None,
                svc_retryItemStatusCodes = None, svc_before = None, svc_after = None\<rparr>;
          s1 = (if Workers options > 0 then s0\<lparr>svc_workers := Some (Workers options)\<rparr> else s0);
          s2 = (if BulkActions options \<noteq> 0
                then s1\<lparr>svc_bulkActions := Some (BulkActions options)\<rparr> else s1);
          s3 = (if BulkSize options \<noteq> 0 then s2\<lparr>svc_bulkSize := Some (BulkSize options)\<rparr> else s2);
          s4 = (if FlushInterval options \<noteq> 0
                then s3\<lparr>svc_flushInterval := Some (FlushInterval options)\<rparr> else s3);
          s5 = (if Backoff options \<noteq> None then s4\<lparr>svc_backoff := Backoff options\<rparr> else s4);
          s6 = (if RetryItemStatusCodes options \<noteq> None
                then s5\<lparr>svc_retryItemStatusCodes := RetryItemStatusCodes options\<rparr> else s5)
      in s6\<lparr>svc_before := BulkBefore options, svc_after := BulkAfter options\<rparr>)"

definition EnableBulkFlush :: "BulkOptions \<Rightarrow> Hook \<Rightarrow> trace \<Rightarrow> (error option \<times> Hook) \<times> trace" where
  "EnableBulkFlush options h tr =
     (let s = bulk_service options;
          (processor, err) = BulkProcessor_result (client h) tr s;
          h1 = h\<lparr>cancel := bulk_CancelFunc (cancel h) processor\<rparr>;
          h2 = h1\<lparr>flushFunc := bulkFlush_func processor\<rparr>
      in ((err, h2), tr @ [BulkProcessor_Do s context_Background]))"

definition EnableAsyncFlush :: "Hook \<Rightarrow> Hook" where
  "EnableAsyncFlush h = h\<lparr>flushFunc := asyncFlush_func\<rparr>"

definition EnableSyncFlush :: "Hook \<Rightarrow> Hook" where
  "EnableSyncFlush h = h\<lparr>flushFunc := syncFlush_func\<rparr>"

subsection \<open>The logrus hook interface\<close>

definition Fire :: "Hook \<Rightarrow> Entry \<Rightarrow> trace \<Rightarrow> error option outcome \<times> Entry \<times> trace" where
  "Fire h entry tr = call_flushFunc (flushFunc h) entry h tr"

definition Levels :: "Hook \<Rightarrow> Level list" where
  "Levels h = levels h"

definition Close :: "Hook \<Rightarrow> trace \<Rightarrow> unit outcome \<times> trace" where
  "Close h tr = call_cancel (cancel h) h tr"

subsection \<open>The hooks a program can hold\<close>

text \<open>
  The fields of \<open>Hook\<close> are unexported. Outside the package a hook comes from \<open>New\<close>
  and changes only through the six configuration methods; \<open>Fire\<close>, \<open>Levels\<close> and
  \<open>Close\<close> assign no field.
\<close>

inductive reachable :: "deps \<Rightarrow> Hook \<Rightarrow> bool" for lib :: deps where
  reach_New: "fst (fst (New lib cl idx tr)) = Some h \<Longrightarrow> reachable lib h"
| reach_SetLevel: "reachable lib h \<Longrightarrow> reachable lib (SetLevel lib level h)"
| reach_SetFormatter: "reachable lib h \<Longrightarrow> reachable lib (SetFormatter f h)"
| reach_SetDocumentType: "reachable lib h \<Longrightarrow> reachable lib (SetDocumentType t h)"
| reach_EnableBulkFlush:
    "reachable lib h \<Longrightarrow> reachable lib (snd (fst (EnableBulkFlush options h tr)))"
| reach_EnableAsyncFlush: "reachable lib h \<Longrightarrow> reachable lib (EnableAsyncFlush h)"
| reach_EnableSyncFlush: "reachable lib h \<Longrightarrow> reachable lib (EnableSyncFlush h)"

section \<open>Concrete libraries, clients, hooks and entries\<close>

text \<open>
  The levels of logrus with their numbers and names, \<open>logrus.ErrorKey\<close>, and a clock
  that formats the epoch only. They instantiate the library parameter where a statement
  is evaluated on an input.
\<close>

definition PanicLevel :: Level where "PanicLevel = 0"
definition FatalLevel :: Level where "FatalLevel = 1"
definition ErrorLevel :: Level where "ErrorLevel = 2"
definition WarnLevel :: Level where "WarnLevel = 3"
definition InfoLevel :: Level where "InfoLevel = 4"
definition DebugLevel :: Level where "DebugLevel = 5"
definition TraceLevel :: Level where "TraceLevel = 6"

definition logrus_deps :: deps where
  "logrus_deps =
     \<lparr>AllLevels = [PanicLevel, FatalLevel, ErrorLevel, WarnLevel, InfoLevel, DebugLevel, TraceLevel],
      ErrorKey = ''error'',
      Level_String = (\<lambda>l.
        if l = TraceLevel then ''trace'' else if l = DebugLevel then ''debug''
        else if l = InfoLevel then ''info'' else if l = WarnLevel then ''warning''
        else if l = ErrorLevel then ''error'' else if l = FatalLevel then ''fatal''
        else if l = PanicLevel then ''panic'' else ''unknown''),
      Time_UTC = (\<lambda>t. t),
      Time_Format = (\<lambda>t layout.
        if t = 0 \<and> layout = RFC3339Nano then ''1970-01-01T00:00:00Z'' else [])\<rparr>"

text \<open>
  The bulk processor of the elastic library once \<open>Close\<close> has run on it: its channels
  are closed, so \<open>Add\<close> and \<open>Flush\<close> panic on sending to them, and a further
  \<open>Close\<close> returns nil.
\<close>

definition closed :: "Processor \<Rightarrow> trace \<Rightarrow> bool" where
  "closed p tr = (Processor_Close p \<in> set tr)"

text \<open>
  A backend that has every index and accepts every request; one that refuses every
  call; and one that answers but does not have the index.
\<close>

definition up_client :: Client where
  "up_client =
     \<lparr>IndexExists_result = (\<lambda>tr idx. (True, None)),
      Index_result = (\<lambda>tr req. None),
      BulkProcessor_result = (\<lambda>tr s. (Some 1, None)),
      Add_result = (\<lambda>tr p req. if closed p tr then Panic else Return ()),
      Flush_result = (\<lambda>tr p. if closed p tr then Panic else Return None),
      Close_result = (\<lambda>tr p. Return None)\<rparr>"

definition down_client :: Client where
  "down_client =
     \<lparr>IndexExists_result = (\<lambda>tr idx. (False, Some (errors_New ''connection refused''))),
      Index_result = (\<lambda>tr req. Some (errors_New ''connection refused'')),
      BulkProcessor_result = (\<lambda>tr s. (None, Some (errors_New ''connection refused''))),
      Add_result = (\<lambda>tr p req. if closed p tr then Panic else Return ()),
      Flush_result = (\<lambda>tr p.
        if closed p tr then Panic else Return (Some (errors_New ''connection refused''))),
      Close_result = (\<lambda>tr p.
        if closed p tr then Return None else Return (Some (errors_New ''connection refused'')))\<rparr>"

definition missing_client :: Client where
  "missing_client = up_client\<lparr>IndexExists_result := (\<lambda>tr idx. (False, None))\<rparr>"

text \<open>The hook \<open>New\<close> returns for the index \<open>sync\<close>.\<close>

definition ready_hook :: "Client \<Rightarrow> Hook" where
  "ready_hook cl =
     \<lparr>client = cl, index = ''sync'', docType = ''doc'', levels = AllLevels logrus_deps,
      cancel = context_CancelFunc, formatter = defaultFormatter logrus_deps,
      flushFunc = syncFlush_func, errorLogger = None\<rparr>"

text \<open>The two records the repository's tests log.\<close>

definition info_entry :: Entry where
  "info_entry = \<lparr>Data = Map.empty, Time = 0, Level = InfoLevel, Message = ''Hello world!''\<rparr>"

definition error_entry :: Entry where
  "error_entry =
     \<lparr>Data = [''error'' \<mapsto> Error_val (errors_New ''this is error''), ''user'' \<mapsto> Int_val 7],
      Time = 0, Level = ErrorLevel, Message = ''error sample''\<rparr>"

text \<open>
  The options of the repository's bulk test; a client whose bulk processor does not
  start; one whose processor fails to flush and to close; and one that has the index but
  refuses every index request.
\<close>

definition test_BulkOptions :: BulkOptions where
  "test_BulkOptions =
     \<lparr>Workers = 2, Stats = False, BulkActions = 0, BulkSize = 0, FlushInterval = 1000000000,
      Backoff = None, BulkBefore = None, BulkAfter = None, RetryItemStatusCodes = None\<rparr>"

definition unstarted_client :: Client where
  "unstarted_client =
     up_client\<lparr>BulkProcessor_result := (\<lambda>tr s. (None, Some (errors_New ''not started'')))\<rparr>"

definition flaky_client :: Client where
  "flaky_client =
     up_client\<lparr>Flush_result := (\<lambda>tr p.
                 if closed p tr then Panic else Return (Some (errors_New ''flush failed''))),
               Close_result := (\<lambda>tr p.
                 if closed p tr then Return None else Return (Some (errors_New ''close failed'')))\<rparr>"


section \<open>The level set\<close>

lemmas level_defs = PanicLevel_def FatalLevel_def ErrorLevel_def WarnLevel_def InfoLevel_def
  DebugLevel_def TraceLevel_def

lemma foldl_append_filter:
  "foldl (\<lambda>ls l. if P l then ls @ [l] else ls) acc xs = acc @ filter P xs"
  by (induction xs arbitrary: acc) simp_all

lemma Levels_SetLevel: "Levels (SetLevel lib L h) = filter (\<lambda>l. l \<le> L) (AllLevels lib)"
  by (simp add: Levels_def SetLevel_def foldl_append_filter)

text \<open>
  C6. After \<open>SetLevel L\<close> the level set \<open>Levels\<close> exposes is exactly the levels of
  \<open>logrus.AllLevels\<close> whose number is at most \<open>L\<close>: for a level \<open>L\<close> of logrus, \<open>L\<close>
  itself together with every more severe level (smaller number), and no less severe one.
\<close>

theorem SetLevel_levels:
  "set (Levels (SetLevel lib L h)) = {l \<in> set (AllLevels lib). l \<le> L} \<and>
   (L \<in> set (AllLevels lib) \<longrightarrow>
      set (Levels (SetLevel lib L h)) = insert L {l \<in> set (AllLevels lib). l < L})"
  by (auto simp: Levels_SetLevel)

theorem SetLevel_levels_witness:
  "ErrorLevel \<in> set (AllLevels logrus_deps) \<and>
   set (Levels (SetLevel logrus_deps ErrorLevel (ready_hook up_client))) =
     {ErrorLevel, PanicLevel, FatalLevel}"
proof -
  have a: "ErrorLevel \<in> set (AllLevels logrus_deps)"
    by (simp add: logrus_deps_def)
  have "set (filter (\<lambda>l. l < ErrorLevel) (AllLevels logrus_deps)) = {PanicLevel, FatalLevel}"
    by (simp add: logrus_deps_def level_defs)
  then have b: "{l \<in> set (AllLevels logrus_deps). l < ErrorLevel} = {PanicLevel, FatalLevel}"
    by simp
  have "set (Levels (SetLevel logrus_deps ErrorLevel (ready_hook up_client))) =
          insert ErrorLevel {l \<in> set (AllLevels logrus_deps). l < ErrorLevel}"
    using SetLevel_levels [of logrus_deps ErrorLevel "ready_hook up_client", THEN conjunct2] a
    by (rule mp)
  with a b show ?thesis by simp
qed

section \<open>Construction\<close>

text \<open>
  C3. \<open>New\<close> returns an error exactly when the existence check fails or reports the
  index absent. It returns a hook exactly when it returns no error, and then the hook is
  the ready one: the client and index given, document type \<open>doc\<close>, all levels, the
  default formatter, synchronous delivery, its context live. On either failure no hook is
  returned and the context is cancelled.
\<close>

theorem New_result:
  "(snd (fst (New lib cl idx tr)) \<noteq> None) =
     (snd (IndexExists_result cl tr idx) \<noteq> None \<or> \<not> fst (IndexExists_result cl tr idx)) \<and>
   (fst (fst (New lib cl idx tr)) = None) = (snd (fst (New lib cl idx tr)) \<noteq> None) \<and>
   (snd (fst (New lib cl idx tr)) = None \<longrightarrow>
      New lib cl idx tr =
        ((Some \<lparr>client = cl, index = idx, docType = ''doc'', levels = AllLevels lib,
                 cancel = context_CancelFunc, formatter = defaultFormatter lib,
                 flushFunc = syncFlush_func, errorLogger = None\<rparr>, None),
         tr @ [IndexExists_Do idx])) \<and>
   (snd (fst (New lib cl idx tr)) \<noteq> None \<longrightarrow>
      snd (New lib cl idx tr) = tr @ [IndexExists_Do idx, Context_cancel])"
  by (cases "IndexExists_result cl tr idx") (auto simp: New_def Let_def)

theorem New_result_witness:
  "New logrus_deps up_client ''sync'' [] =
     ((Some (ready_hook up_client), None), [IndexExists_Do ''sync'']) \<and>
   New logrus_deps down_client ''sync'' [] =
     ((None, Some (errors_New ''connection refused'')),
      [IndexExists_Do ''sync'', Context_cancel]) \<and>
   New logrus_deps missing_client ''sync'' [] =
     ((None, Some (errors_New ''index not exists'')),
      [IndexExists_Do ''sync'', Context_cancel])"
  using New_result [of logrus_deps up_client "''sync''" "[]"]
    New_result [of logrus_deps down_client "''sync''" "[]"]
    New_result [of logrus_deps missing_client "''sync''" "[]"]
  by (simp add: New_def up_client_def down_client_def missing_client_def ready_hook_def)

section \<open>The default formatter\<close>

lemma defaultFormatter_entry:
  "snd (defaultFormatter lib e) =
     (case Data e (ErrorKey lib) of
        Some (Error_val err) \<Rightarrow> e\<lparr>Data := (Data e)(ErrorKey lib \<mapsto> String_val (Error err))\<rparr>
      | _ \<Rightarrow> e)"
  by (simp add: defaultFormatter_def Let_def split: option.splits iface.splits)

lemma defaultFormatter_info_entry: "snd (defaultFormatter logrus_deps info_entry) = info_entry"
  by (simp add: defaultFormatter_entry info_entry_def)

text \<open>
  C4. The document of the default formatter has exactly the four fields \<open>@timestamp\<close>
  (the entry's time, converted to UTC and formatted with the layout RFC3339Nano),
  \<open>message\<close> (the entry's message), \<open>level\<close> (the level's name) and \<open>data\<close> (the
  entry's field mapping). The mapping in the document equals the entry's on every key but
  the error key; an error stored under the error key appears there as its text, and any
  other value under that key is unchanged.
\<close>

theorem defaultFormatter_document:
  "dom (fst (defaultFormatter lib e)) = {''@timestamp'', ''message'', ''level'', ''data''} \<and>
   fst (defaultFormatter lib e) ''@timestamp'' =
     Some (String_val (Time_Format lib (Time_UTC lib (Time e)) RFC3339Nano)) \<and>
   fst (defaultFormatter lib e) ''message'' = Some (String_val (Message e)) \<and>
   fst (defaultFormatter lib e) ''level'' = Some (String_val (Level_String lib (Level e))) \<and>
   fst (defaultFormatter lib e) ''data'' =
     Some (Fields_val (Data (snd (defaultFormatter lib e)))) \<and>
   (\<forall>k. k \<noteq> ErrorKey lib \<longrightarrow> Data (snd (defaultFormatter lib e)) k = Data e k) \<and>
   (\<forall>err. Data e (ErrorKey lib) = Some (Error_val err) \<longrightarrow>
      Data (snd (defaultFormatter lib e)) (ErrorKey lib) = Some (String_val (Error err))) \<and>
   ((\<forall>err. Data e (ErrorKey lib) \<noteq> Some (Error_val err)) \<longrightarrow>
      Data (snd (defaultFormatter lib e)) (ErrorKey lib) = Data e (ErrorKey lib))"
  by (auto simp: defaultFormatter_def Let_def split: option.splits iface.splits)

theorem defaultFormatter_document_witness:
  "fst (defaultFormatter logrus_deps error_entry) ''@timestamp'' =
     Some (String_val ''1970-01-01T00:00:00Z'') \<and>
   fst (defaultFormatter logrus_deps error_entry) ''message'' = Some (String_val ''error sample'') \<and>
   fst (defaultFormatter logrus_deps error_entry) ''level'' = Some (String_val ''error'') \<and>
   fst (defaultFormatter logrus_deps error_entry) ''data'' =
     Some (Fields_val (Data (snd (defaultFormatter logrus_deps error_entry)))) \<and>
   Data (snd (defaultFormatter logrus_deps error_entry)) ''error'' =
     Some (String_val ''this is error'') \<and>
   Data (snd (defaultFormatter logrus_deps error_entry)) ''user'' = Some (Int_val 7) \<and>
   fst (defaultFormatter logrus_deps error_entry) ''component'' = None \<and>
   Data (snd (defaultFormatter logrus_deps info_entry)) ''error'' = None"
  using defaultFormatter_document [of logrus_deps error_entry]
    defaultFormatter_document [of logrus_deps info_entry]
  by (simp add: defaultFormatter_def logrus_deps_def error_entry_def info_entry_def level_defs)

text \<open>
  C7. When the entry's field mapping holds an error under the error key, the default
  formatter leaves the entry with that field replaced by the error's text and nothing
  else changed; the caller sees it after the call. Every other entry is left as it was.
\<close>

theorem defaultFormatter_mutates_entry:
  "(\<forall>err. Data e (ErrorKey lib) = Some (Error_val err) \<longrightarrow>
      snd (defaultFormatter lib e) =
        e\<lparr>Data := (Data e)(ErrorKey lib \<mapsto> String_val (Error err))\<rparr>) \<and>
   ((\<forall>err. Data e (ErrorKey lib) \<noteq> Some (Error_val err)) \<longrightarrow>
      snd (defaultFormatter lib e) = e)"
  by (auto simp: defaultFormatter_def Let_def split: option.splits iface.splits)

theorem defaultFormatter_mutates_entry_witness:
  "Data error_entry (ErrorKey logrus_deps) = Some (Error_val (errors_New ''this is error'')) \<and>
   snd (defaultFormatter logrus_deps error_entry) =
     error_entry\<lparr>Data := (Data error_entry)(''error'' \<mapsto> String_val ''this is error'')\<rparr> \<and>
   Data info_entry (ErrorKey logrus_deps) = None \<and>
   snd (defaultFormatter logrus_deps info_entry) = info_entry"
  using defaultFormatter_mutates_entry [of error_entry logrus_deps]
    defaultFormatter_mutates_entry [of info_entry logrus_deps]
  by (simp add: logrus_deps_def error_entry_def info_entry_def)

section \<open>Fire and the level set\<close>

lemma call_flushFunc_levels:
  "call_flushFunc f e (h\<lparr>levels := ls\<rparr>) tr = call_flushFunc f e h tr"
  by (cases f)
    (simp_all add: syncFlush_def asyncFlush_def bulkFlush_def split_beta Let_def
      split: option.splits outcome.splits)

text \<open>
  \<open>Fire\<close> has no level filter. With the threshold set to \<open>error\<close>, firing the
  \<open>info\<close> record of the tests, which is not in the level set, sends the index request.
\<close>

theorem Fire_below_threshold_counterexample:
  "Level info_entry \<notin> set (Levels (SetLevel logrus_deps ErrorLevel (ready_hook up_client))) \<and>
   Fire (SetLevel logrus_deps ErrorLevel (ready_hook up_client)) info_entry [] =
     (Return None, info_entry,
      [Index_Do \<lparr>req_index = ''sync'', req_type = ''doc'',
                 req_body = fst (defaultFormatter logrus_deps info_entry)\<rparr>])"
proof -
  have "Levels (SetLevel logrus_deps ErrorLevel (ready_hook up_client)) =
          [PanicLevel, FatalLevel, ErrorLevel]"
    by (simp add: Levels_SetLevel logrus_deps_def level_defs)
  then have a:
    "Level info_entry \<notin> set (Levels (SetLevel logrus_deps ErrorLevel (ready_hook up_client)))"
    by (simp add: info_entry_def level_defs)
  have "Fire (SetLevel logrus_deps ErrorLevel (ready_hook up_client)) info_entry [] =
     (Return None, info_entry,
      [Index_Do \<lparr>req_index = ''sync'', req_type = ''doc'',
                 req_body = fst (defaultFormatter logrus_deps info_entry)\<rparr>])"
    using defaultFormatter_info_entry
    by (simp add: Fire_def SetLevel_def ready_hook_def syncFlush_def up_client_def split_beta)
  with a show ?thesis by simp
qed

text \<open>
  C1, as the code has it. \<open>Fire\<close> hands every record to the active delivery function
  and returns its result, whatever the record's level and whatever threshold \<open>SetLevel\<close>
  configured: the level set is only what \<open>Levels\<close> reports to the logging framework.
\<close>

theorem Fire_ignores_level:
  "Fire (SetLevel lib L h) e tr = call_flushFunc (flushFunc h) e h tr"
  by (simp add: Fire_def SetLevel_def call_flushFunc_levels)

theorem Fire_ignores_level_witness:
  "Fire (SetLevel logrus_deps PanicLevel (ready_hook up_client)) error_entry [] =
     call_flushFunc syncFlush_func error_entry (ready_hook up_client) []"
  using Fire_ignores_level [of logrus_deps PanicLevel "ready_hook up_client" error_entry "[]"]
  by (simp add: ready_hook_def)

section \<open>Asynchronous delivery\<close>

text \<open>
  The goroutine of \<open>asyncFlush\<close> sends the request and then calls the error logger
  when the hook has one.
\<close>

lemma asyncFlush_go_trace:
  "snd (asyncFlush_go e h tr) =
     snd (snd (syncFlush e h tr)) @
     (if errorLogger h \<noteq> None
      then [ErrorLogger_call ''couldn't send log to elastic'' (fst (syncFlush e h tr))] else [])"
  by (simp add: asyncFlush_go_def split_beta)


lemma reachable_ready_hook: "reachable logrus_deps (ready_hook up_client)"
proof -
  have "fst (fst (New logrus_deps up_client ''sync'' [])) = Some (ready_hook up_client)"
    by (simp add: New_def up_client_def ready_hook_def)
  then show ?thesis by (rule reach_New)
qed





section \<open>Bulk delivery\<close>

lemma EnableBulkFlush_hook:
  "EnableBulkFlush options h tr =
     ((snd (BulkProcessor_result (client h) tr (bulk_service options)),
       h\<lparr>cancel := bulk_CancelFunc (cancel h)
                    (fst (BulkProcessor_result (client h) tr (bulk_service options))),
          flushFunc := bulkFlush_func
                    (fst (BulkProcessor_result (client h) tr (bulk_service options)))\<rparr>),
      tr @ [BulkProcessor_Do (bulk_service options) context_Background])"
  by (simp add: EnableBulkFlush_def Let_def split_beta)

text \<open>The hook of the bulk test: \<open>New\<close>, then \<open>EnableBulkFlush\<close>.\<close>

lemma bulk_hook:
  "snd (fst (EnableBulkFlush test_BulkOptions (ready_hook up_client) [])) =
     (ready_hook up_client)\<lparr>cancel := bulk_CancelFunc context_CancelFunc (Some 1),
                             flushFunc := bulkFlush_func (Some 1)\<rparr>"
  by (simp add: EnableBulkFlush_hook ready_hook_def up_client_def)

lemma reachable_bulk_hook:
  "reachable logrus_deps (snd (fst (EnableBulkFlush test_BulkOptions (ready_hook up_client) [])))"
  using reachable_ready_hook by (rule reach_EnableBulkFlush)

lemma Close_bulk_hook:
  "Close (snd (fst (EnableBulkFlush test_BulkOptions (ready_hook up_client) []))) [] =
     (Return (), [Context_cancel, Processor_Flush 1, Processor_Close 1])"
  unfolding bulk_hook
  by (simp add: Close_def report_def ready_hook_def up_client_def closed_def)

text \<open>
  The hook of the bulk test, closed once and fired afterwards: \<open>Add\<close> on the closed
  processor panics, so \<open>Fire\<close> adds nothing and does not return.
\<close>

theorem bulk_Fire_after_Close_counterexample:
  "reachable logrus_deps (snd (fst (EnableBulkFlush test_BulkOptions (ready_hook up_client) []))) \<and>
   flushFunc (snd (fst (EnableBulkFlush test_BulkOptions (ready_hook up_client) []))) =
     bulkFlush_func (Some 1) \<and>
   Close (snd (fst (EnableBulkFlush test_BulkOptions (ready_hook up_client) []))) [] =
     (Return (), [Context_cancel, Processor_Flush 1, Processor_Close 1]) \<and>
   Fire (snd (fst (EnableBulkFlush test_BulkOptions (ready_hook up_client) []))) info_entry
       [Context_cancel, Processor_Flush 1, Processor_Close 1] =
     (Panic, info_entry,
      [Context_cancel, Processor_Flush 1, Processor_Close 1,
       Processor_Add 1 \<lparr>bulk_index = ''sync'', bulk_type = ''doc'',
                         bulk_doc = fst (defaultFormatter logrus_deps info_entry)\<rparr>])"
proof -
  have "Fire (snd (fst (EnableBulkFlush test_BulkOptions (ready_hook up_client) []))) info_entry
       [Context_cancel, Processor_Flush 1, Processor_Close 1] =
     (Panic, info_entry,
      [Context_cancel, Processor_Flush 1, Processor_Close 1,
       Processor_Add 1 \<lparr>bulk_index = ''sync'', bulk_type = ''doc'',
                         bulk_doc = fst (defaultFormatter logrus_deps info_entry)\<rparr>])"
    using defaultFormatter_info_entry unfolding bulk_hook
    by (simp add: Fire_def bulkFlush_def ready_hook_def up_client_def closed_def split_beta)
  with reachable_bulk_hook Close_bulk_hook show ?thesis
    by (simp add: bulk_hook)
qed

text \<open>
  C8, as the code has it. In bulk mode \<open>Fire\<close> formats the entry and calls \<open>Add\<close> of
  the processor once, with a request for the hook's index and document type and the
  formatted entry as its document. When \<open>Add\<close> returns, \<open>Fire\<close> returns nil. When
  \<open>Add\<close> panics (the processor has been closed), or the processor is nil (it did not
  start), \<open>Fire\<close> panics. In no case does it return an error. The flush function
  \<open>EnableBulkFlush\<close> installs is the one around the processor the start returned.
\<close>

theorem bulk_Fire_enqueues:
  "(flushFunc h = bulkFlush_func (Some p) \<and>
    Add_result (client h) tr p
      \<lparr>bulk_index = index h, bulk_type = docType h, bulk_doc = fst (formatter h e)\<rparr> = Return () \<longrightarrow>
      Fire h e tr =
        (Return None, snd (formatter h e),
         tr @ [Processor_Add p \<lparr>bulk_index = index h, bulk_type = docType h,
                                 bulk_doc = fst (formatter h e)\<rparr>])) \<and>
   (flushFunc h = bulkFlush_func (Some p) \<and>
    Add_result (client h) tr p
      \<lparr>bulk_index = index h, bulk_type = docType h, bulk_doc = fst (formatter h e)\<rparr> = Panic \<longrightarrow>
      Fire h e tr =
        (Panic, snd (formatter h e),
         tr @ [Processor_Add p \<lparr>bulk_index = index h, bulk_type = docType h,
                                 bulk_doc = fst (formatter h e)\<rparr>])) \<and>
   (flushFunc h = bulkFlush_func None \<longrightarrow> Fire h e tr = (Panic, snd (formatter h e), tr)) \<and>
   (\<forall>processor err. flushFunc h = bulkFlush_func processor \<longrightarrow>
      fst (Fire h e tr) \<noteq> Return (Some err)) \<and>
   flushFunc (snd (fst (EnableBulkFlush options h tr0))) =
     bulkFlush_func (fst (BulkProcessor_result (client h) tr0 (bulk_service options)))"
  by (auto simp: Fire_def bulkFlush_def EnableBulkFlush_hook split_beta Let_def
      split: option.splits outcome.splits)

theorem bulk_Fire_enqueues_witness:
  "flushFunc (snd (fst (EnableBulkFlush test_BulkOptions (ready_hook up_client) []))) =
     bulkFlush_func (Some 1) \<and>
   Fire (snd (fst (EnableBulkFlush test_BulkOptions (ready_hook up_client) []))) info_entry [] =
     (Return None, info_entry,
      [Processor_Add 1 \<lparr>bulk_index = ''sync'', bulk_type = ''doc'',
                         bulk_doc = fst (defaultFormatter logrus_deps info_entry)\<rparr>]) \<and>
   flushFunc (snd (fst (EnableBulkFlush test_BulkOptions (ready_hook unstarted_client) []))) =
     bulkFlush_func None \<and>
   Fire (snd (fst (EnableBulkFlush test_BulkOptions (ready_hook unstarted_client) []))) info_entry [] =
     (Panic, info_entry, [])"
proof -
  let ?h = "snd (fst (EnableBulkFlush test_BulkOptions (ready_hook up_client) []))"
  let ?u = "snd (fst (EnableBulkFlush test_BulkOptions (ready_hook unstarted_client) []))"
  let ?req = "\<lparr>bulk_index = index ?h, bulk_type = docType ?h,
               bulk_doc = fst (formatter ?h info_entry)\<rparr>"
  have a: "flushFunc ?h = bulkFlush_func (Some 1)"
    by (simp add: bulk_hook)
  have b: "Add_result (client ?h) [] 1 ?req = Return ()"
    unfolding bulk_hook by (simp add: ready_hook_def up_client_def closed_def)
  have c: "flushFunc ?u = bulkFlush_func None"
    by (simp add: EnableBulkFlush_hook ready_hook_def unstarted_client_def up_client_def)
  have "Fire ?h info_entry [] = (Return None, snd (formatter ?h info_entry), [] @ [Processor_Add 1 ?req])"
    using bulk_Fire_enqueues [of ?h 1 "[]" info_entry, THEN conjunct1] a b by simp
  moreover have "Fire ?u info_entry [] = (Panic, snd (formatter ?u info_entry), [])"
    using bulk_Fire_enqueues [of ?u 1 "[]" info_entry, THEN conjunct2, THEN conjunct2, THEN conjunct1] c
    by simp
  ultimately show ?thesis
    using a c
    by (simp add: EnableBulkFlush_hook ready_hook_def defaultFormatter_info_entry)
qed

text \<open>
  C10. When starting the bulk processor returns an error, \<open>EnableBulkFlush\<close> returns
  that error and has nevertheless replaced the flush function by the bulk one and wrapped
  the cancel function, both around whatever processor the start returned: the hook is in
  neither synchronous nor asynchronous mode any more, and \<open>Fire\<close> runs the bulk flush
  function.
\<close>

theorem EnableBulkFlush_not_atomic:
  "snd (BulkProcessor_result (client h) tr (bulk_service options)) = Some err \<longrightarrow>
     EnableBulkFlush options h tr =
       ((Some err,
         h\<lparr>cancel := bulk_CancelFunc (cancel h)
                      (fst (BulkProcessor_result (client h) tr (bulk_service options))),
            flushFunc := bulkFlush_func
                      (fst (BulkProcessor_result (client h) tr (bulk_service options)))\<rparr>),
        tr @ [BulkProcessor_Do (bulk_service options) context_Background]) \<and>
     flushFunc (snd (fst (EnableBulkFlush options h tr))) \<noteq> syncFlush_func \<and>
     flushFunc (snd (fst (EnableBulkFlush options h tr))) \<noteq> asyncFlush_func \<and>
     cancel (snd (fst (EnableBulkFlush options h tr))) \<noteq> cancel h \<and>
     Fire (snd (fst (EnableBulkFlush options h tr))) e tr' =
       bulkFlush (fst (BulkProcessor_result (client h) tr (bulk_service options))) e
         (snd (fst (EnableBulkFlush options h tr))) tr'"
  by (simp add: EnableBulkFlush_hook Fire_def)

theorem EnableBulkFlush_not_atomic_witness:
  "snd (BulkProcessor_result (client (ready_hook unstarted_client)) []
          (bulk_service test_BulkOptions)) = Some (errors_New ''not started'') \<and>
   flushFunc (ready_hook unstarted_client) = syncFlush_func \<and>
   fst (fst (EnableBulkFlush test_BulkOptions (ready_hook unstarted_client) [])) =
     Some (errors_New ''not started'') \<and>
   flushFunc (snd (fst (EnableBulkFlush test_BulkOptions (ready_hook unstarted_client) []))) =
     bulkFlush_func None \<and>
   cancel (snd (fst (EnableBulkFlush test_BulkOptions (ready_hook unstarted_client) []))) =
     bulk_CancelFunc context_CancelFunc None"
proof -
  have a: "snd (BulkProcessor_result (client (ready_hook unstarted_client)) []
          (bulk_service test_BulkOptions)) = Some (errors_New ''not started'')"
    by (simp add: ready_hook_def unstarted_client_def up_client_def)
  from EnableBulkFlush_not_atomic [of "ready_hook unstarted_client" "[]" test_BulkOptions
      "errors_New ''not started''" info_entry "[]"] a
  show ?thesis
    by (simp add: ready_hook_def unstarted_client_def up_client_def)
qed

section \<open>Closing\<close>

lemma Close_EnableBulkFlush:
  "Close (snd (fst (EnableBulkFlush options h tr0))) tr =
     (case call_cancel (cancel h) (snd (fst (EnableBulkFlush options h tr0))) tr of
        (Panic, tr1) \<Rightarrow> (Panic, tr1)
      | (Return u, tr1) \<Rightarrow>
          (case fst (BulkProcessor_result (client h) tr0 (bulk_service options)) of
             None \<Rightarrow> (Panic, tr1)
           | Some p \<Rightarrow>
               (case Flush_result (client h) tr1 p of
                  Panic \<Rightarrow> (Panic, tr1 @ [Processor_Flush p])
                | Return e \<Rightarrow>
                    (case Close_result (client h)
                            (tr1 @ [Processor_Flush p] @ report h ''couldn't flush'' e) p of
                       Panic \<Rightarrow>
                         (Panic,
                          tr1 @ [Processor_Flush p] @ report h ''couldn't flush'' e @
                          [Processor_Close p])
                     | Return e' \<Rightarrow>
                         (Return (),
                          tr1 @ [Processor_Flush p] @ report h ''couldn't flush'' e @
                          [Processor_Close p] @ report h ''couldn't close'' e')))))"
  by (simp add: EnableBulkFlush_hook Close_def report_def Let_def
      split: prod.splits outcome.splits option.splits)

text \<open>
  \<open>EnableBulkFlush\<close> starts the processor under \<open>context.Background()\<close>. The first
  step of \<open>Close\<close> cancels the hook's context, which is then done; the context of the
  processor is not, so nothing of the processor is stopped by that step.
\<close>

theorem Close_unbound_context_counterexample:
  "snd (EnableBulkFlush test_BulkOptions (ready_hook up_client) []) =
     [BulkProcessor_Do (bulk_service test_BulkOptions) context_Background] \<and>
   Close (snd (fst (EnableBulkFlush test_BulkOptions (ready_hook up_client) [])))
       [BulkProcessor_Do (bulk_service test_BulkOptions) context_Background] =
     (Return (),
      [BulkProcessor_Do (bulk_service test_BulkOptions) context_Background,
       Context_cancel, Processor_Flush 1, Processor_Close 1]) \<and>
   ctx_Done hook_ctx
     [BulkProcessor_Do (bulk_service test_BulkOptions) context_Background, Context_cancel] \<and>
   \<not> ctx_Done context_Background
     [BulkProcessor_Do (bulk_service test_BulkOptions) context_Background, Context_cancel]"
proof -
  have "Close (snd (fst (EnableBulkFlush test_BulkOptions (ready_hook up_client) [])))
       [BulkProcessor_Do (bulk_service test_BulkOptions) context_Background] =
     (Return (),
      [BulkProcessor_Do (bulk_service test_BulkOptions) context_Background,
       Context_cancel, Processor_Flush 1, Processor_Close 1])"
    unfolding bulk_hook
    by (simp add: Close_def report_def ready_hook_def up_client_def closed_def)
  then show ?thesis
    by (simp add: EnableBulkFlush_hook ctx_Done_def)
qed

text \<open>
  C5, as the code has it. After \<open>EnableBulkFlush\<close>, \<open>Close\<close> first runs the cancel
  function the hook had before (for a hook from \<open>New\<close>: it cancels the hook's context,
  not the background context the processor was started under), then calls \<open>Flush\<close> of
  the processor, then \<open>Close\<close> of the processor. A non-nil error of either is passed to
  the error logger when the hook has one and dropped otherwise; \<open>Close\<close> has no return
  value. It panics where the previous cancel function, \<open>Flush\<close> or \<open>Close\<close> panics, and
  after the previous cancel function when the processor is nil.
\<close>

theorem Close_after_EnableBulkFlush:
  "snd (EnableBulkFlush options h tr0) =
     tr0 @ [BulkProcessor_Do (bulk_service options) context_Background] \<and>
   \<not> ctx_Done context_Background (tr @ [Context_cancel]) \<and>
   Close (snd (fst (EnableBulkFlush options h tr0))) tr =
     (case call_cancel (cancel h) (snd (fst (EnableBulkFlush options h tr0))) tr of
        (Panic, tr1) \<Rightarrow> (Panic, tr1)
      | (Return u, tr1) \<Rightarrow>
          (case fst (BulkProcessor_result (client h) tr0 (bulk_service options)) of
             None \<Rightarrow> (Panic, tr1)
           | Some p \<Rightarrow>
               (case Flush_result (client h) tr1 p of
                  Panic \<Rightarrow> (Panic, tr1 @ [Processor_Flush p])
                | Return e \<Rightarrow>
                    (case Close_result (client h)
                            (tr1 @ [Processor_Flush p] @ report h ''couldn't flush'' e) p of
                       Panic \<Rightarrow>
                         (Panic,
                          tr1 @ [Processor_Flush p] @ report h ''couldn't flush'' e @
                          [Processor_Close p])
                     | Return e' \<Rightarrow>
                         (Return (),
                          tr1 @ [Processor_Flush p] @ report h ''couldn't flush'' e @
                          [Processor_Close p] @ report h ''couldn't close'' e'))))) \<and>
   (cancel h = context_CancelFunc \<and>
    fst (BulkProcessor_result (client h) tr0 (bulk_service options)) = Some p \<and>
    Flush_result (client h) (tr @ [Context_cancel]) p = Return e \<and>
    Close_result (client h)
      (tr @ [Context_cancel, Processor_Flush p] @
       (if e \<noteq> None \<and> errorLogger h \<noteq> None
        then [ErrorLogger_call ''couldn't flush'' e] else [])) p = Return e' \<longrightarrow>
    Close (snd (fst (EnableBulkFlush options h tr0))) tr =
      (Return (),
       tr @ [Context_cancel, Processor_Flush p] @
       (if e \<noteq> None \<and> errorLogger h \<noteq> None
        then [ErrorLogger_call ''couldn't flush'' e] else []) @
       [Processor_Close p] @
       (if e' \<noteq> None \<and> errorLogger h \<noteq> None
        then [ErrorLogger_call ''couldn't close'' e'] else [])))"
proof -
  have a: "snd (EnableBulkFlush options h tr0) =
     tr0 @ [BulkProcessor_Do (bulk_service options) context_Background]"
    by (simp add: EnableBulkFlush_hook)
  have b: "\<not> ctx_Done context_Background (tr @ [Context_cancel])"
    by (simp add: ctx_Done_def)
  have d: "cancel h = context_CancelFunc \<and>
    fst (BulkProcessor_result (client h) tr0 (bulk_service options)) = Some p \<and>
    Flush_result (client h) (tr @ [Context_cancel]) p = Return e \<and>
    Close_result (client h)
      (tr @ [Context_cancel, Processor_Flush p] @
       (if e \<noteq> None \<and> errorLogger h \<noteq> None
        then [ErrorLogger_call ''couldn't flush'' e] else [])) p = Return e' \<longrightarrow>
    Close (snd (fst (EnableBulkFlush options h tr0))) tr =
      (Return (),
       tr @ [Context_cancel, Processor_Flush p] @
       (if e \<noteq> None \<and> errorLogger h \<noteq> None
        then [ErrorLogger_call ''couldn't flush'' e] else []) @
       [Processor_Close p] @
       (if e' \<noteq> None \<and> errorLogger h \<noteq> None
        then [ErrorLogger_call ''couldn't close'' e'] else []))"
    by (simp add: Close_EnableBulkFlush report_def)
  from a b Close_EnableBulkFlush [of options h tr0 tr] d show ?thesis
    by (intro conjI)
qed

theorem Close_after_EnableBulkFlush_witness:
  "reachable logrus_deps (ready_hook flaky_client) \<and>
   cancel (ready_hook flaky_client) = context_CancelFunc \<and>
   fst (BulkProcessor_result (client (ready_hook flaky_client)) []
          (bulk_service test_BulkOptions)) = Some 1 \<and>
   Flush_result (client (ready_hook flaky_client)) [Context_cancel] 1 =
     Return (Some (errors_New ''flush failed'')) \<and>
   Close_result (client (ready_hook flaky_client)) [Context_cancel, Processor_Flush 1] 1 =
     Return (Some (errors_New ''close failed'')) \<and>
   Close (snd (fst (EnableBulkFlush test_BulkOptions (ready_hook flaky_client) []))) [] =
     (Return (), [Context_cancel, Processor_Flush 1, Processor_Close 1])"
proof -
  let ?h = "ready_hook flaky_client"
  have "fst (fst (New logrus_deps flaky_client ''sync'' [])) = Some ?h"
    by (simp add: New_def flaky_client_def up_client_def ready_hook_def)
  then have r: "reachable logrus_deps ?h" by (rule reach_New)
  have a: "cancel ?h = context_CancelFunc"
    by (simp add: ready_hook_def)
  have b: "fst (BulkProcessor_result (client ?h) [] (bulk_service test_BulkOptions)) = Some 1"
    by (simp add: ready_hook_def flaky_client_def up_client_def)
  have c: "Flush_result (client ?h) ([] @ [Context_cancel]) 1 =
             Return (Some (errors_New ''flush failed''))"
    by (simp add: ready_hook_def flaky_client_def up_client_def closed_def)
  have n: "errorLogger ?h = None"
    by (simp add: ready_hook_def)
  have d: "Close_result (client ?h)
      ([] @ [Context_cancel, Processor_Flush 1] @
       (if Some (errors_New ''flush failed'') \<noteq> None \<and> errorLogger ?h \<noteq> None
        then [ErrorLogger_call ''couldn't flush'' (Some (errors_New ''flush failed''))] else [])) 1 =
       Return (Some (errors_New ''close failed''))"
    by (simp add: ready_hook_def flaky_client_def up_client_def closed_def)
  have "Close (snd (fst (EnableBulkFlush test_BulkOptions ?h []))) [] =
      (Return (),
       [] @ [Context_cancel, Processor_Flush 1] @
       (if Some (errors_New ''flush failed'') \<noteq> None \<and> errorLogger ?h \<noteq> None
        then [ErrorLogger_call ''couldn't flush'' (Some (errors_New ''flush failed''))] else []) @
       [Processor_Close 1] @
       (if Some (errors_New ''close failed'') \<noteq> None \<and> errorLogger ?h \<noteq> None
        then [ErrorLogger_call ''couldn't close'' (Some (errors_New ''close failed''))] else []))"
    using Close_after_EnableBulkFlush [of test_BulkOptions ?h "[]" "[]" 1
        "Some (errors_New ''flush failed'')" "Some (errors_New ''close failed'')"] a b c d
    by blast
  with r a b c d n show ?thesis by simp
qed

subsection \<open>Closing twice\<close>

text \<open>
  The hook of the bulk test, closed twice: the second call cancels the context again and
  calls \<open>Flush\<close> on the processor the first call closed, where it panics.
\<close>

theorem Close_twice_counterexample:
  "reachable logrus_deps (snd (fst (EnableBulkFlush test_BulkOptions (ready_hook up_client) []))) \<and>
   Close (snd (fst (EnableBulkFlush test_BulkOptions (ready_hook up_client) []))) [] =
     (Return (), [Context_cancel, Processor_Flush 1, Processor_Close 1]) \<and>
   Close (snd (fst (EnableBulkFlush test_BulkOptions (ready_hook up_client) [])))
       [Context_cancel, Processor_Flush 1, Processor_Close 1] =
     (Panic, [Context_cancel, Processor_Flush 1, Processor_Close 1,
              Context_cancel, Processor_Flush 1])"
proof -
  have "Close (snd (fst (EnableBulkFlush test_BulkOptions (ready_hook up_client) [])))
       [Context_cancel, Processor_Flush 1, Processor_Close 1] =
     (Panic, [Context_cancel, Processor_Flush 1, Processor_Close 1,
              Context_cancel, Processor_Flush 1])"
    unfolding bulk_hook
    by (simp add: Close_def report_def ready_hook_def up_client_def closed_def)
  with reachable_bulk_hook Close_bulk_hook show ?thesis by simp
qed

text \<open>
  C9, as the code has it. \<open>Close\<close> keeps no record of having run. On a hook that never
  had \<open>EnableBulkFlush\<close> called, each call only cancels the hook's context, and a second
  call returns like the first. On a hook from \<open>New\<close> after \<open>EnableBulkFlush\<close>, a call
  cancels the context and then calls \<open>Flush\<close> of the processor; when that panics, as it
  does on the processor an earlier \<open>Close\<close> closed, the call panics there, having made
  no other call.
\<close>

theorem Close_twice:
  "(cancel h = context_CancelFunc \<longrightarrow>
      Close h tr = (Return (), tr @ [Context_cancel]) \<and>
      Close h (tr @ [Context_cancel]) = (Return (), tr @ [Context_cancel, Context_cancel])) \<and>
   (cancel h = bulk_CancelFunc context_CancelFunc (Some p) \<and>
    Flush_result (client h) (tr1 @ [Context_cancel]) p = Panic \<longrightarrow>
      Close h tr1 = (Panic, tr1 @ [Context_cancel, Processor_Flush p]))"
  by (simp add: Close_def)

theorem Close_twice_witness:
  "cancel (ready_hook up_client) = context_CancelFunc \<and>
   Close (ready_hook up_client) [] = (Return (), [Context_cancel]) \<and>
   Close (ready_hook up_client) [Context_cancel] = (Return (), [Context_cancel, Context_cancel]) \<and>
   cancel (snd (fst (EnableBulkFlush test_BulkOptions (ready_hook up_client) []))) =
     bulk_CancelFunc context_CancelFunc (Some 1) \<and>
   Flush_result (client (snd (fst (EnableBulkFlush test_BulkOptions (ready_hook up_client) []))))
     [Context_cancel, Processor_Flush 1, Processor_Close 1, Context_cancel] 1 = Panic \<and>
   Close (snd (fst (EnableBulkFlush test_BulkOptions (ready_hook up_client) [])))
       [Context_cancel, Processor_Flush 1, Processor_Close 1] =
     (Panic, [Context_cancel, Processor_Flush 1, Processor_Close 1,
              Context_cancel, Processor_Flush 1])"
proof -
  let ?b = "snd (fst (EnableBulkFlush test_BulkOptions (ready_hook up_client) []))"
  let ?t = "[Context_cancel, Processor_Flush 1, Processor_Close 1]"
  have a: "cancel (ready_hook up_client) = context_CancelFunc"
    by (simp add: ready_hook_def)
  have b: "cancel ?b = bulk_CancelFunc context_CancelFunc (Some 1)"
    by (simp add: bulk_hook)
  have c: "Flush_result (client ?b) (?t @ [Context_cancel]) 1 = Panic"
    unfolding bulk_hook by (simp add: ready_hook_def up_client_def closed_def)
  from Close_twice [of "ready_hook up_client" "[]" 1 "[]"] Close_twice [of ?b "[]" 1 ?t] a b c
  show ?thesis by simp
qed

end
